theory Spec2Isabelle
  imports Complex_Main
begin

section \<open>The rotator client and the homing loop of unwind.py\<close>

text \<open>
  The development embeds the class \<open>ROTCTLD\<close> (the rotctld client) and the homing loop of
  the script's main block. Conventions of the embedding:
  \<^item> Degrees and seconds are Python floats in the source. They are modelled as real numbers:
    finite values with exact arithmetic; rounding, infinities and NaN are outside the model.
  \<^item> Two Python builtins are parameters of the model (record \<open>pylib\<close>): \<open>float(s)\<close>, which
    either yields a number or raises ValueError, and the one-decimal formatting of the
    \<open>%\<close> operator (\<open>%3.1f\<close> and \<open>%2.1f\<close> never pad, since every output has at least three
    characters, so both are the same function).
  \<^item> The socket and the wall clock form the \<open>world\<close>, passed through every operation. Each
    request/response exchange consumes one entry of a script: the time the exchange takes
    and the outcome of \<open>self.sock.recv(1024).decode('ascii')\<close>, where \<open>None\<close> stands for an
    exception in that expression. When the script is exhausted the device stays silent and
    \<open>recv\<close> times out after the socket timeout. Writes to the socket are assumed to succeed.
    The clock advances during an exchange and during \<open>time.sleep\<close>; computation takes no
    time. The world also records the lines written to the log and whether \<open>close\<close> was
    called.
  \<^item> Exceptions are values of type \<open>exn\<close>; an operation that can raise returns \<open>exn + 'a\<close>.
\<close>

subsection \<open>Data\<close>

datatype exn =
    TypeError            \<comment> \<open>\<open>"RPRT 0" not in None\<close>\<close>
  | NameError            \<comment> \<open>use of the unbound variable \<open>_new_az\<close>\<close>
  | AttributeError       \<comment> \<open>\<open>None.split\<close>\<close>
  | IndexError           \<comment> \<open>\<open>response_split[1]\<close> on a one-element list\<close>
  | ValueError           \<comment> \<open>\<open>float\<close> of a non-numeric string, \<open>time.sleep\<close> of a negative number\<close>
  | CommunicationLost    \<comment> \<open>\<open>Exception("No communication with rotator.")\<close>\<close>
  | MovementTimeout      \<comment> \<open>\<open>Exception("Movement Timeout!")\<close>\<close>

datatype log_line =
    TargetPosition real real          \<comment> \<open>debug, \<open>set_azel\<close>\<close>
  | CurrentPosition real real         \<comment> \<open>debug, \<open>set_azel\<close>\<close>
  | CouldNotParse "string option"     \<comment> \<open>error, \<open>get_azel\<close>\<close>
  | AttemptingMove real real          \<comment> \<open>info, main\<close>
  | CouldNotCommunicate               \<comment> \<open>error, main\<close>
  | FinishedMoving                    \<comment> \<open>info, main: "Finished moving to target position."\<close>
  | ErrorExn exn                      \<comment> \<open>error, main: "Error - ..."\<close>
  | MovementSuccessful                \<comment> \<open>info, main\<close>
  | FailedToMove                      \<comment> \<open>error, main\<close>
  | ElapsedTime real                  \<comment> \<open>info, main\<close>

record pylib =
  float_of :: "string \<Rightarrow> real option"
  fmt1 :: "real \<Rightarrow> string"

record world =
  clock :: real
  script :: "(real \<times> string option) list"
  sent :: "string list"
  logged :: "log_line list"
  sock_closed :: bool

record rotctld =
  poll_rate :: real
  movement_threshold :: real
  movement_timeout :: real
  sock_timeout :: real

text \<open>
  The inputs of the homing loop: the target \<open>_home_az\<close>, \<open>_home_el\<close> (from the command line or
  from the schedule lookup) and the arguments \<open>homing_timeout\<close>, \<open>azimuth_step\<close> and
  \<open>movement_threshold\<close>, here \<open>threshold\<close>.
\<close>

record args =
  home_azimuth :: real
  home_elevation :: real
  homing_timeout :: real
  azimuth_step :: real
  threshold :: real

subsection \<open>Python primitives\<close>

definition newline :: char where
  "newline = CHR 0x0A"

text \<open>\<open>x % m\<close> on floats: the result takes the sign of the divisor.\<close>

definition pymod :: "real \<Rightarrow> real \<Rightarrow> real" where
  "pymod x m = x - m * of_int \<lfloor>x / m\<rfloor>"

text \<open>\<open>p in s\<close> on strings.\<close>

fun is_in :: "string \<Rightarrow> string \<Rightarrow> bool" where
  "is_in p [] = (p = [])"
| "is_in p (c # cs) = (take (length p) (c # cs) = p \<or> is_in p cs)"

text \<open>\<open>s.split(c)\<close> with a one-character separator.\<close>

fun split_on :: "char \<Rightarrow> string \<Rightarrow> string list" where
  "split_on c [] = [[]]"
| "split_on c (x # xs) =
     (if x = c then [] # split_on c xs
      else (case split_on c xs of
              [] \<Rightarrow> [[x]]
            | y # ys \<Rightarrow> (x # y) # ys))"

text \<open>\<open>time.sleep(d)\<close>; a negative duration is rejected with ValueError.\<close>

definition sleep :: "real \<Rightarrow> world \<Rightarrow> exn + world" where
  "sleep d w = (if d < 0 then Inl ValueError else Inr (w\<lparr>clock := clock w + d\<rparr>))"

definition emit :: "log_line \<Rightarrow> world \<Rightarrow> world" where
  "emit l w = w\<lparr>logged := logged w @ [l]\<rparr>"

subsection \<open>The client\<close>

definition close :: "world \<Rightarrow> world" where
  "close w = w\<lparr>sock_closed := True\<rparr>"

definition send_command :: "rotctld \<Rightarrow> string \<Rightarrow> world \<Rightarrow> string option \<times> world" where
  "send_command rot command w =
     (let w1 = w\<lparr>sent := sent w @ [command @ [newline]]\<rparr>
      in case script w1 of
           [] \<Rightarrow> (None, w1\<lparr>clock := clock w1 + sock_timeout rot\<rparr>)
         | (d, r) # rest \<Rightarrow> (r, w1\<lparr>clock := clock w1 + d, script := rest\<rparr>))"

text \<open>The body of the \<open>try\<close> block of \<open>get_azel\<close>, with the exceptions it can raise.\<close>

definition azel_try :: "pylib \<Rightarrow> string option \<Rightarrow> exn + (real \<times> real)" where
  "azel_try py response =
     (case response of
        None \<Rightarrow> Inl AttributeError
      | Some r \<Rightarrow>
          (case split_on newline r of
             [] \<Rightarrow> Inl IndexError
           | a # bs \<Rightarrow>
               (case float_of py a of
                  None \<Rightarrow> Inl ValueError
                | Some az \<Rightarrow>
                    (case bs of
                       [] \<Rightarrow> Inl IndexError
                     | b # _ \<Rightarrow>
                         (case float_of py b of
                            None \<Rightarrow> Inl ValueError
                          | Some el \<Rightarrow> Inr (az, el))))))"

text \<open>
  \<open>get_azel\<close> returns \<open>(None, None)\<close> from its bare \<open>except\<close>; the callers only test the
  first component, so the pair of optional floats is an optional pair here.
\<close>

definition get_azel :: "pylib \<Rightarrow> rotctld \<Rightarrow> world \<Rightarrow> (real \<times> real) option \<times> world" where
  "get_azel py rot w =
     (let (response, w1) = send_command rot ''p'' w
      in case azel_try py response of
           Inr p \<Rightarrow> (Some p, w1)
         | Inl _ \<Rightarrow> (None, emit (CouldNotParse response) w1))"

text \<open>The polling loop of \<open>set_azel\<close> (blocking mode); \<open>t0\<close> is \<open>_start_time\<close>.\<close>

function wait_loop ::
  "pylib \<Rightarrow> rotctld \<Rightarrow> real \<Rightarrow> real \<Rightarrow> real \<Rightarrow> world \<Rightarrow> (exn + bool) \<times> world" where
  "wait_loop py rot t0 azimuth elevation w =
     (if clock w - t0 < movement_timeout rot then
        (case sleep (poll_rate rot) w of
           Inl e \<Rightarrow> (Inl e, w)
         | Inr ws \<Rightarrow>
             (case get_azel py rot ws of
                (None, w1) \<Rightarrow> (Inl CommunicationLost, w1)
              | (Some (az, el), w1) \<Rightarrow>
                  if \<bar>azimuth - pymod az 360\<bar> < movement_threshold rot
                     \<and> \<bar>elevation - el\<bar> < movement_threshold rot
                  then (Inr True, emit (CurrentPosition az el) w1)
                  else wait_loop py rot t0 azimuth elevation
                         (emit (CurrentPosition az el) w1)))
      else (Inl MovementTimeout, w))"
  by pat_completeness auto
termination
  apply (relation "measure (\<lambda>(py, rot, t0, azimuth, elevation, w). length (script w))")
   apply simp
  apply (auto simp: get_azel_def send_command_def sleep_def emit_def azel_try_def Let_def
      split: list.splits prod.splits sum.splits option.splits if_splits)
  done

declare wait_loop.simps [simp del]

text \<open>
  \<open>set_azel\<close>. The keyword argument \<open>timeout\<close> of the source is never read (the loop uses
  \<open>self.movement_timeout\<close>) and is left out.
\<close>

definition set_azel ::
  "pylib \<Rightarrow> rotctld \<Rightarrow> real \<Rightarrow> real \<Rightarrow> bool \<Rightarrow> world \<Rightarrow> (exn + bool) \<times> world" where
  "set_azel py rot azimuth elevation blocking w =
     (let elevation = (if elevation > 90 then 90 else if elevation < 0 then 0 else elevation);
          azimuth = (if azimuth > 360 then pymod azimuth 360 else azimuth);
          command = ''P '' @ fmt1 py azimuth @ '' '' @ fmt1 py elevation;
          (response, w1) = send_command rot command w
      in case response of
           None \<Rightarrow> (Inl TypeError, w1)
         | Some r \<Rightarrow>
             if \<not> is_in ''RPRT 0'' r then (Inr False, w1)
             else if \<not> blocking then (Inr True, w1)
             else wait_loop py rot (clock w1) azimuth elevation
                    (emit (TargetPosition azimuth elevation) w1))"

subsection \<open>The homing loop of the main block\<close>

text \<open>The client the main block constructs: \<open>poll_rate = 3.0\<close>, the defaults otherwise.\<close>

definition main_rot :: "args \<Rightarrow> rotctld" where
  "main_rot a =
     \<lparr>poll_rate = 3, movement_threshold = threshold a, movement_timeout = 120,
      sock_timeout = 5\<rparr>"

text \<open>
  The step computation (the \<open>if\<close>/\<open>elif\<close> on the azimuths). The last argument and the result
  are the binding of the variable \<open>_new_az\<close>: \<open>None\<close> while it is unbound. There is no \<open>else\<close>
  branch, so equal azimuths leave the binding as it was.
\<close>

definition step_azimuth :: "real \<Rightarrow> real \<Rightarrow> real \<Rightarrow> real option \<Rightarrow> real option" where
  "step_azimuth az home_az step new_az =
     (if az < home_az then
        (let n = az + step in Some (if n > home_az then home_az else n))
      else if az > home_az then
        (let n = az - step in Some (if n < home_az then home_az else n))
      else new_az)"

text \<open>
  The \<open>while\<close> loop. \<open>t0\<close> is \<open>_start_time\<close>, \<open>new_az\<close> the binding of \<open>_new_az\<close> left by the
  previous iteration. \<open>Inr ()\<close> is a normal exit of the loop (its condition fails, or a
  \<open>break\<close>); \<open>Inl e\<close> is an exception that leaves the loop uncaught. Only the blocking
  \<open>set_azel\<close> of the stepping branch is inside a \<open>try\<close>.
\<close>

function homing_loop ::
  "pylib \<Rightarrow> args \<Rightarrow> rotctld \<Rightarrow> real \<Rightarrow> real option \<Rightarrow> world \<Rightarrow> (exn + unit) \<times> world" where
  "homing_loop py a rot t0 new_az w =
     (if clock w - t0 < homing_timeout a then
        (case get_azel py rot w of
           (None, w1) \<Rightarrow> (Inr (), emit CouldNotCommunicate w1)
         | (Some (az, el), w1) \<Rightarrow>
             if \<bar>home_azimuth a - az\<bar> < threshold a \<and> \<bar>home_elevation a - el\<bar> < threshold a
             then
               (case set_azel py rot (home_azimuth a) (home_elevation a) False
                       (emit FinishedMoving w1) of
                  (Inl e, w2) \<Rightarrow> (Inl e, w2)
                | (Inr _, w2) \<Rightarrow> (Inr (), w2))
             else
               (case step_azimuth az (home_azimuth a) (azimuth_step a) new_az of
                  None \<Rightarrow> (Inl NameError, w1)
                | Some n \<Rightarrow>
                    (case set_azel py rot (pymod n 360) (home_elevation a) True w1 of
                       (Inl e, w2) \<Rightarrow> (Inr (), emit (ErrorExn e) w2)
                     | (Inr success, w2) \<Rightarrow>
                         if success
                         then homing_loop py a rot t0 (Some (pymod n 360))
                                (emit MovementSuccessful w2)
                         else (Inr (), emit FailedToMove w2))))
      else (Inr (), w))"
  by pat_completeness auto
termination
proof -
  have wl: "length (script (snd (wait_loop py rot t0 x y w))) \<le> length (script w)"
    for py rot t0 x y w
  proof (induction py rot t0 x y w rule: wait_loop.induct)
    case (1 py rot t0 azimuth elevation w)
    show ?case
    proof (cases "clock w - t0 < movement_timeout rot \<and> \<not> poll_rate rot < 0")
      case False
      then show ?thesis by (subst wait_loop.simps) (auto simp: sleep_def)
    next
      case True
      let ?ws = "w\<lparr>clock := clock w + poll_rate rot\<rparr>"
      from True have sl: "sleep (poll_rate rot) w = Inr ?ws"
        by (simp add: sleep_def)
      obtain r w1 where r: "get_azel py rot ?ws = (r, w1)"
        by (cases "get_azel py rot ?ws")
      then have le: "length (script w1) \<le> length (script w)"
        by (auto simp: get_azel_def send_command_def emit_def Let_def
            split: list.splits prod.splits sum.splits)
      show ?thesis
      proof (cases r)
        case None
        with True sl r le show ?thesis by (subst wait_loop.simps) simp
      next
        case (Some p)
        obtain az el where p: "p = (az, el)" by (cases p)
        let ?w2 = "emit (CurrentPosition az el) w1"
        have le2: "length (script ?w2) \<le> length (script w)"
          using le by (simp add: emit_def)
        show ?thesis
        proof (cases "\<bar>azimuth - pymod az 360\<bar> < movement_threshold rot
                      \<and> \<bar>elevation - el\<bar> < movement_threshold rot")
          case arrived: True
          with True sl r Some p le2 show ?thesis by (subst wait_loop.simps) simp
        next
          case moving: False
          have "length (script (snd (wait_loop py rot t0 azimuth elevation ?w2)))
                \<le> length (script ?w2)"
            using "1.IH" [of ?ws "Some (az, el)" w1 "(az, el)" az el]
              True sl r Some p moving
            by simp
          with le2 have "length (script (snd (wait_loop py rot t0 azimuth elevation ?w2)))
                \<le> length (script w)"
            by linarith
          with True sl r Some p moving show ?thesis by (subst wait_loop.simps) auto
        qed
      qed
    qed
  qed
  have sc: "length (script (snd (send_command rot c w))) \<le> length (script w)"
    for rot c w
    by (simp add: send_command_def Let_def split: list.splits prod.splits)
  have sa: "length (script (snd (set_azel py rot x y b w))) \<le> length (script w)"
    for py rot x y b w
  proof -
    let ?el = "if y > 90 then 90 else if y < 0 then 0 else y"
    let ?az = "if x > 360 then pymod x 360 else x"
    let ?c = "''P '' @ fmt1 py ?az @ '' '' @ fmt1 py ?el"
    obtain resp w1 where s: "send_command rot ?c w = (resp, w1)"
      by (cases "send_command rot ?c w")
    have le: "length (script w1) \<le> length (script w)"
      using sc [of rot ?c w] s by simp
    have "length (script (snd (wait_loop py rot (clock w1) ?az ?el
              (emit (TargetPosition ?az ?el) w1)))) \<le> length (script w1)"
      using wl [of py rot "clock w1" ?az ?el "emit (TargetPosition ?az ?el) w1"]
      by (simp add: emit_def)
    with le have "length (script (snd (wait_loop py rot (clock w1) ?az ?el
              (emit (TargetPosition ?az ?el) w1)))) \<le> length (script w)"
      by linarith
    with le s show ?thesis
      by (cases resp) (simp_all add: set_azel_def Let_def)
  qed
  have ga: "get_azel py rot w = (Some p, w1) \<Longrightarrow> length (script w1) < length (script w)"
    for py rot w p w1
    by (auto simp: get_azel_def send_command_def emit_def azel_try_def Let_def
        split: list.splits prod.splits sum.splits)
  show ?thesis
  proof (relation "measure (\<lambda>(py, a, rot, t0, new_az, w). length (script w))")
    show "wf (measure (\<lambda>(py, a, rot, t0, new_az, w). length (script w)))"
      by simp
  next
    fix py a rot t0 new_az w x y x2 xa ya x2a xb yaa b
    assume q: "(x, y) = get_azel py rot w" "x = Some x2"
      and s: "(xb, yaa) = set_azel py rot (pymod x2a 360) (home_elevation a) True y"
    from q have "length (script y) < length (script w)"
      using ga [of py rot w x2 y] by simp
    moreover from s have "length (script yaa) \<le> length (script y)"
      using sa [of py rot "pymod x2a 360" "home_elevation a" True y] by (simp flip: s)
    ultimately show "((py, a, rot, t0, Some (pymod x2a 360), emit MovementSuccessful yaa),
        py, a, rot, t0, new_az, w) \<in> measure (\<lambda>(py, a, rot, t0, new_az, w). length (script w))"
      by (simp add: emit_def)
  qed
qed

declare homing_loop.simps [simp del]

definition main :: "pylib \<Rightarrow> args \<Rightarrow> world \<Rightarrow> (exn + unit) \<times> world" where
  "main py a w =
     (let t0 = clock w;
          w0 = emit (AttemptingMove (home_azimuth a) (home_elevation a)) w
      in case homing_loop py a (main_rot a) t0 None w0 of
           (Inl e, w1) \<Rightarrow> (Inl e, w1)
         | (Inr _, w1) \<Rightarrow> (Inr (), emit (ElapsedTime (clock w1 - t0)) (close w1)))"

subsection \<open>Outcomes of the polling loop\<close>

text \<open>
  The vocabulary for statements about the polling loop of \<open>set_azel\<close>. A reply to a position
  query either is not a position (\<open>Lost\<close>), or reports a position within the threshold of the
  commanded target on both axes (\<open>Arrived\<close>), or reports a position elsewhere (\<open>Moving\<close>).
\<close>

datatype poll = Arrived | Moving | Lost

text \<open>
  The parse of \<open>get_azel\<close> followed by the comparison of the loop body: the reported azimuth
  is reduced modulo 360, the target is compared as it is.
\<close>

definition poll_result :: "pylib \<Rightarrow> rotctld \<Rightarrow> real \<Rightarrow> real \<Rightarrow> string option \<Rightarrow> poll" where
  "poll_result py rot azimuth elevation response =
     (case azel_try py response of
        Inl _ \<Rightarrow> Lost
      | Inr (az, el) \<Rightarrow>
          if \<bar>azimuth - pymod az 360\<bar> < movement_threshold rot
             \<and> \<bar>elevation - el\<bar> < movement_threshold rot
          then Arrived else Moving)"

text \<open>
  The time between \<open>_start_time\<close> and the start of iteration \<open>i\<close> of the loop, when the
  replies to its queries are \<open>sc\<close>: each earlier iteration sleeps for the poll interval and
  then waits for its reply.
\<close>

definition loop_time :: "rotctld \<Rightarrow> (real \<times> string option) list \<Rightarrow> nat \<Rightarrow> real" where
  "loop_time rot sc i = (\<Sum>(d, r) \<leftarrow> take i sc. poll_rate rot + d)"

text \<open>
  How the loop ends and how many position queries it sends, as a function of the time \<open>t\<close>
  since \<open>_start_time\<close> and of the replies still to come, for a poll interval that is not
  negative. Lemma \<open>wait_loop_polls\<close> below shows that this is what \<open>wait_loop\<close> computes.
\<close>

fun polls ::
  "pylib \<Rightarrow> rotctld \<Rightarrow> real \<Rightarrow> real \<Rightarrow> real \<Rightarrow> (real \<times> string option) list \<Rightarrow> (exn + bool) \<times> nat" where
  "polls py rot azimuth elevation t [] =
     (if t < movement_timeout rot then (Inl CommunicationLost, 1) else (Inl MovementTimeout, 0))"
| "polls py rot azimuth elevation t ((d, r) # sc) =
     (if t < movement_timeout rot then
        (case poll_result py rot azimuth elevation r of
           Lost \<Rightarrow> (Inl CommunicationLost, 1)
         | Arrived \<Rightarrow> (Inr True, 1)
         | Moving \<Rightarrow>
             (case polls py rot azimuth elevation (t + poll_rate rot + d) sc of
                (res, n) \<Rightarrow> (res, Suc n)))
      else (Inl MovementTimeout, 0))"

subsection \<open>Inputs of the concrete runs\<close>

text \<open>
  The runs below instantiate the two builtins with the finite excerpt \<open>py_sample\<close>: the value
  of \<open>float\<close> on the strings and of the one-decimal format on the numbers that occur in them.
\<close>

definition py_sample :: pylib where
  "py_sample =
     \<lparr>float_of = (\<lambda>s. if s = ''0.0'' then Some 0
                       else if s = ''45.0'' then Some 45
                       else if s = ''50.0'' then Some 50
                       else if s = ''90.0'' then Some 90
                       else None),
      fmt1 = (\<lambda>x. if x = 0 then ''0.0''
                   else if x = 10 then ''10.0''
                   else if x = 20 then ''20.0''
                   else if x = 40 then ''40.0''
                   else if x = 45 then ''45.0''
                   else if x = 90 then ''90.0''
                   else if x = 360 then ''360.0''
                   else if x = - 10 then ''-10.0''
                   else ''?'')\<rparr>"

text \<open>The defaults of the command line: home position (0, 0), 180 s, 90 degrees, 10 degrees.\<close>

definition default_args :: args where
  "default_args =
     \<lparr>home_azimuth = 0, home_elevation = 0, homing_timeout = 180, azimuth_step = 90,
      threshold = 10\<rparr>"

definition fresh_world :: "(real \<times> string option) list \<Rightarrow> world" where
  "fresh_world sc = \<lparr>clock = 0, script = sc, sent = [], logged = [], sock_closed = False\<rparr>"

text \<open>The reply of rotctld to \<open>p\<close>: azimuth and elevation, one per line.\<close>

definition position_reply :: "string \<Rightarrow> string \<Rightarrow> string" where
  "position_reply a b = a @ [newline] @ b @ [newline]"

section \<open>Properties\<close>

subsection \<open>Python primitives\<close>

lemma pymod_360_range: "0 \<le> pymod x 360 \<and> pymod x 360 < 360"
proof -
  have "of_int \<lfloor>x / 360\<rfloor> \<le> x / 360" "x / 360 < of_int \<lfloor>x / 360\<rfloor> + 1"
    by linarith+
  then show ?thesis
    unfolding pymod_def by (simp add: field_simps)
qed

lemma split_on_no_sep: "c \<notin> set s \<Longrightarrow> split_on c s = [s]"
  by (induction s) auto

lemma split_on_two_lines:
  "c \<notin> set a \<Longrightarrow> c \<notin> set b \<Longrightarrow> split_on c (a @ c # b) = [a, b]"
  by (induction a) (auto simp: split_on_no_sep)

subsection \<open>One exchange with the device\<close>

lemma get_azel_silent:
  "script w = [] \<Longrightarrow> get_azel py rot w =
     (None, w\<lparr>sent := sent w @ [''p'' @ [newline]], clock := clock w + sock_timeout rot,
              logged := logged w @ [CouldNotParse None]\<rparr>)"
  by (simp add: get_azel_def send_command_def azel_try_def emit_def)

lemma get_azel_reply:
  "script w = (d, r) # rest \<Longrightarrow> get_azel py rot w =
     (case azel_try py r of
        Inr p \<Rightarrow> (Some p, w\<lparr>sent := sent w @ [''p'' @ [newline]], clock := clock w + d,
                           script := rest\<rparr>)
      | Inl _ \<Rightarrow> (None, w\<lparr>sent := sent w @ [''p'' @ [newline]], clock := clock w + d,
                          script := rest, logged := logged w @ [CouldNotParse r]\<rparr>))"
  by (simp add: get_azel_def send_command_def emit_def split: sum.splits)

lemma set_azel_silent:
  "script w = [] \<Longrightarrow> set_azel py rot azimuth elevation blocking w =
     (Inl TypeError,
      w\<lparr>sent := sent w @
           [''P '' @ fmt1 py (if azimuth > 360 then pymod azimuth 360 else azimuth) @ '' '' @
            fmt1 py (if elevation > 90 then 90 else if elevation < 0 then 0 else elevation) @
            [newline]],
        clock := clock w + sock_timeout rot\<rparr>)"
  by (simp add: set_azel_def send_command_def Let_def)

lemma set_azel_reply:
  "script w = (d, r) # sc \<Longrightarrow> set_azel py rot azimuth elevation blocking w =
     (let az = (if azimuth > 360 then pymod azimuth 360 else azimuth);
          el = (if elevation > 90 then 90 else if elevation < 0 then 0 else elevation);
          w1 = w\<lparr>sent := sent w @ [''P '' @ fmt1 py az @ '' '' @ fmt1 py el @ [newline]],
                 clock := clock w + d, script := sc\<rparr>
      in case r of
           None \<Rightarrow> (Inl TypeError, w1)
         | Some resp \<Rightarrow>
             if \<not> is_in ''RPRT 0'' resp then (Inr False, w1)
             else if \<not> blocking then (Inr True, w1)
             else wait_loop py rot (clock w + d) az el (emit (TargetPosition az el) w1))"
  by (simp add: set_azel_def send_command_def Let_def split: option.splits)

lemma set_azel_rejected:
  assumes "script w = (d, Some resp) # sc" and "\<not> is_in ''RPRT 0'' resp"
  shows "fst (set_azel py rot azimuth elevation blocking w) = Inr False"
    and "sent (snd (set_azel py rot azimuth elevation blocking w)) =
      sent w @
      [''P '' @ fmt1 py (if azimuth > 360 then pymod azimuth 360 else azimuth) @ '' '' @
       fmt1 py (if elevation > 90 then 90 else if elevation < 0 then 0 else elevation) @
       [newline]]"
    and "script (snd (set_azel py rot azimuth elevation blocking w)) = sc"
  using assms by (simp_all add: set_azel_reply Let_def)

subsection \<open>The polling loop\<close>

lemma wait_loop_polls:
  assumes "0 \<le> poll_rate rot"
  shows "fst (wait_loop py rot t0 az el w) = fst (polls py rot az el (clock w - t0) (script w))
       \<and> sent (snd (wait_loop py rot t0 az el w))
           = sent w @ replicate (snd (polls py rot az el (clock w - t0) (script w))) (''p'' @ [newline])
       \<and> script (snd (wait_loop py rot t0 az el w))
           = drop (snd (polls py rot az el (clock w - t0) (script w))) (script w)"
  using assms
proof (induction "script w" arbitrary: w)
  case Nil
  have "wait_loop py rot t0 az el w =
      (if clock w - t0 < movement_timeout rot
       then (Inl CommunicationLost, w\<lparr>sent := sent w @ [''p'' @ [newline]],
               clock := clock w + poll_rate rot + sock_timeout rot,
               logged := logged w @ [CouldNotParse None]\<rparr>)
       else (Inl MovementTimeout, w))"
    using Nil.prems Nil.hyps [symmetric]
    by (subst wait_loop.simps) (simp add: sleep_def get_azel_silent)
  then show ?case
    by (simp add: Nil.hyps [symmetric])
next
  case (Cons x sc)
  obtain d r where x: "x = (d, r)" by (cases x)
  let ?ws = "w\<lparr>clock := clock w + poll_rate rot\<rparr>"
  have sw: "script ?ws = (d, r) # sc" using Cons.hyps(2) x by simp
  have sl: "sleep (poll_rate rot) w = Inr ?ws"
    using Cons.prems by (simp add: sleep_def)
  note scw = Cons.hyps(2) [symmetric, unfolded x]
  show ?case
  proof (cases "clock w - t0 < movement_timeout rot")
    case False
    then have "wait_loop py rot t0 az el w = (Inl MovementTimeout, w)"
      by (subst wait_loop.simps) simp
    with False show ?thesis
      by (simp add: scw)
  next
    case True
    show ?thesis
    proof (cases "azel_try py r")
      case (Inl e)
      with True have "wait_loop py rot t0 az el w =
        (Inl CommunicationLost, w\<lparr>sent := sent w @ [''p'' @ [newline]],
               clock := clock w + poll_rate rot + d, script := sc,
               logged := logged w @ [CouldNotParse r]\<rparr>)"
        by (subst wait_loop.simps) (simp add: sl get_azel_reply [OF sw])
      with True Inl show ?thesis
        by (simp add: scw poll_result_def)
    next
      case (Inr p)
      obtain a e where p: "p = (a, e)" by (cases p)
      let ?w1 = "w\<lparr>sent := sent w @ [''p'' @ [newline]], clock := clock w + poll_rate rot + d,
                    script := sc, logged := logged w @ [CurrentPosition a e]\<rparr>"
      have s1: "sc = script ?w1" by simp
      have teq: "clock ?w1 - t0 = clock w - t0 + poll_rate rot + d" by simp
      note IH = Cons.hyps(1) [OF s1 Cons.prems, unfolded teq]
      show ?thesis
      proof (cases "\<bar>az - pymod a 360\<bar> < movement_threshold rot \<and> \<bar>el - e\<bar> < movement_threshold rot")
        case arrived: True
        with True Inr p have "wait_loop py rot t0 az el w = (Inr True, ?w1)"
          by (subst wait_loop.simps) (simp add: sl get_azel_reply [OF sw] emit_def)
        with True arrived Inr p show ?thesis
          by (simp add: scw poll_result_def)
      next
        case moving: False
        with True Inr p have "wait_loop py rot t0 az el w = wait_loop py rot t0 az el ?w1"
          by (subst wait_loop.simps) (auto simp add: sl get_azel_reply [OF sw] emit_def)
        then show ?thesis
          using True moving Inr p IH
          by (auto simp add: scw poll_result_def split: prod.splits)
      qed
    qed
  qed
qed

lemma wait_loop_sent:
  "\<exists>n. sent (snd (wait_loop py rot t0 az el w)) = sent w @ replicate n (''p'' @ [newline])"
proof (cases "0 \<le> poll_rate rot")
  case True
  from wait_loop_polls [OF this, of py t0 az el w] show ?thesis by blast
next
  case False
  then have "snd (wait_loop py rot t0 az el w) = w"
    by (subst wait_loop.simps) (simp add: sleep_def)
  then have "sent (snd (wait_loop py rot t0 az el w)) = sent w @ replicate 0 (''p'' @ [newline])"
    by simp
  then show ?thesis by blast
qed

lemma set_azel_sent:
  "\<exists>n. sent (snd (set_azel py rot azimuth elevation blocking w)) =
     sent w @
     (''P '' @ fmt1 py (if azimuth > 360 then pymod azimuth 360 else azimuth) @ '' '' @
      fmt1 py (if elevation > 90 then 90 else if elevation < 0 then 0 else elevation) @
      [newline]) # replicate n (''p'' @ [newline])
     \<and> (\<not> blocking \<longrightarrow> n = 0)"
proof (cases "script w")
  case Nil
  then show ?thesis by (simp add: set_azel_silent)
next
  case (Cons x sc)
  obtain d r where x: "x = (d, r)" by (cases x)
  let ?az = "if azimuth > 360 then pymod azimuth 360 else azimuth"
  let ?el = "if elevation > 90 then 90 else if elevation < 0 then 0 else elevation"
  let ?w1 = "w\<lparr>sent := sent w @ [''P '' @ fmt1 py ?az @ '' '' @ fmt1 py ?el @ [newline]],
                  clock := clock w + d, script := sc\<rparr>"
  obtain n where n: "sent (snd (wait_loop py rot (clock w + d) ?az ?el
        (emit (TargetPosition ?az ?el) ?w1)))
      = sent (emit (TargetPosition ?az ?el) ?w1) @ replicate n (''p'' @ [newline])"
    using wait_loop_sent by blast
  show ?thesis
  proof (cases "\<exists>resp. r = Some resp \<and> is_in ''RPRT 0'' resp \<and> blocking")
    case True
    then show ?thesis
      using n Cons x by (auto simp: set_azel_reply Let_def emit_def)
  next
    case False
    then have "sent (snd (set_azel py rot azimuth elevation blocking w)) = sent ?w1"
      using Cons x by (auto simp: set_azel_reply Let_def split: option.splits)
    then show ?thesis by simp
  qed
qed

lemma all_le_Suc2: "(\<forall>i\<le>Suc k. P i) \<longleftrightarrow> P 0 \<and> (\<forall>i\<le>k. P (Suc i))"
  by (metis Suc_le_mono le0 not0_implies_Suc)

lemma ex_le_Suc2: "(\<exists>i\<le>Suc k. P i) \<longleftrightarrow> P 0 \<or> (\<exists>i\<le>k. P (Suc i))"
  by (metis Suc_le_mono le0 not0_implies_Suc)

lemma loop_time_0 [simp]: "loop_time rot sc 0 = 0"
  by (simp add: loop_time_def)

lemma loop_time_Suc [simp]:
  "loop_time rot ((d, r) # sc) (Suc i) = poll_rate rot + d + loop_time rot sc i"
  by (simp add: loop_time_def)

lemma fst_polls_Cons:
  "fst (polls py rot az el t ((d, r) # sc)) =
     (if t < movement_timeout rot then
        (case poll_result py rot az el r of
           Lost \<Rightarrow> Inl CommunicationLost
         | Arrived \<Rightarrow> Inr True
         | Moving \<Rightarrow> fst (polls py rot az el (t + poll_rate rot + d) sc))
      else Inl MovementTimeout)"
  by (simp split: poll.splits prod.splits)

lemma polls_arrived:
  "fst (polls py rot az el t sc) = Inr True \<longleftrightarrow>
     (\<exists>k<length sc. (\<forall>i\<le>k. t + loop_time rot sc i < movement_timeout rot)
        \<and> (\<forall>i<k. poll_result py rot az el (snd (sc ! i)) = Moving)
        \<and> poll_result py rot az el (snd (sc ! k)) = Arrived)"
proof (induction sc arbitrary: t)
  case Nil
  then show ?case by simp
next
  case (Cons x sc)
  obtain d r where x: "x = (d, r)" by (cases x)
  show ?case
    unfolding x fst_polls_Cons
    by (cases "poll_result py rot az el r")
       (auto simp add: Cons.IH Ex_less_Suc2 all_le_Suc2 All_less_Suc2 add.assoc)
qed

lemma polls_timeout:
  "fst (polls py rot az el t sc) = Inl MovementTimeout \<longleftrightarrow>
     (\<exists>k\<le>length sc. (\<forall>i<k. t + loop_time rot sc i < movement_timeout rot
                          \<and> poll_result py rot az el (snd (sc ! i)) = Moving)
        \<and> \<not> t + loop_time rot sc k < movement_timeout rot)"
proof (induction sc arbitrary: t)
  case Nil
  then show ?case by simp
next
  case (Cons x sc)
  obtain d r where x: "x = (d, r)" by (cases x)
  show ?case
    unfolding x fst_polls_Cons
    by (cases "poll_result py rot az el r")
       (auto simp add: Cons.IH ex_le_Suc2 all_le_Suc2 All_less_Suc2 add.assoc)
qed

lemma polls_lost:
  "polls py rot az el t sc = (Inl CommunicationLost, n) \<longleftrightarrow>
     (\<exists>k\<le>length sc. (\<forall>i\<le>k. t + loop_time rot sc i < movement_timeout rot)
        \<and> (\<forall>i<k. poll_result py rot az el (snd (sc ! i)) = Moving)
        \<and> (k < length sc \<longrightarrow> poll_result py rot az el (snd (sc ! k)) = Lost)
        \<and> n = Suc k)"
proof (induction sc arbitrary: t n)
  case Nil
  then show ?case by auto
next
  case (Cons x sc)
  obtain d r where x: "x = (d, r)" by (cases x)
  show ?case
  proof (cases "poll_result py rot az el r")
    case Moving
    have "polls py rot az el t (x # sc) = (Inl CommunicationLost, n) \<longleftrightarrow>
        t < movement_timeout rot \<and>
        (\<exists>m. n = Suc m \<and> polls py rot az el (t + poll_rate rot + d) sc = (Inl CommunicationLost, m))"
      using Moving by (auto simp: x split: prod.splits)
    also have "\<dots> \<longleftrightarrow>
      (\<exists>k\<le>length (x # sc). (\<forall>i\<le>k. t + loop_time rot (x # sc) i < movement_timeout rot)
        \<and> (\<forall>i<k. poll_result py rot az el (snd ((x # sc) ! i)) = Moving)
        \<and> (k < length (x # sc) \<longrightarrow> poll_result py rot az el (snd ((x # sc) ! k)) = Lost)
        \<and> n = Suc k)"
      using Moving
      by (auto simp add: x Cons.IH ex_le_Suc2 all_le_Suc2 All_less_Suc2 add.assoc)
    finally show ?thesis .
  qed (auto simp add: x ex_le_Suc2 all_le_Suc2 All_less_Suc2)
qed

lemma polls_outcomes:
  "fst (polls py rot az el t sc) \<in> {Inr True, Inl MovementTimeout, Inl CommunicationLost}"
proof (induction sc arbitrary: t)
  case Nil
  show ?case by simp
next
  case (Cons x sc)
  obtain d r where x: "x = (d, r)" by (cases x)
  from Cons [of "t + poll_rate rot + d"] show ?case
    unfolding x fst_polls_Cons by (cases "poll_result py rot az el r") auto
qed

subsection \<open>The homing loop\<close>

lemma homing_loop_arrival:
  assumes "clock w - t0 < homing_timeout a"
    and "get_azel py rot w = (Some (az, el), w1)"
    and "\<bar>home_azimuth a - az\<bar> < threshold a" and "\<bar>home_elevation a - el\<bar> < threshold a"
  shows "homing_loop py a rot t0 new_az w =
     (case set_azel py rot (home_azimuth a) (home_elevation a) False (emit FinishedMoving w1) of
        (Inl e, w2) \<Rightarrow> (Inl e, w2)
      | (Inr b, w2) \<Rightarrow> (Inr (), w2))"
  using assms by (subst homing_loop.simps) simp

lemma homing_loop_step:
  assumes "clock w - t0 < homing_timeout a"
    and "get_azel py rot w = (Some (az, el), w1)"
    and "\<not> (\<bar>home_azimuth a - az\<bar> < threshold a \<and> \<bar>home_elevation a - el\<bar> < threshold a)"
    and "step_azimuth az (home_azimuth a) (azimuth_step a) new_az = Some n"
  shows "homing_loop py a rot t0 new_az w =
     (case set_azel py rot (pymod n 360) (home_elevation a) True w1 of
        (Inl e, w2) \<Rightarrow> (Inr (), emit (ErrorExn e) w2)
      | (Inr success, w2) \<Rightarrow>
          if success
          then homing_loop py a rot t0 (Some (pymod n 360)) (emit MovementSuccessful w2)
          else (Inr (), emit FailedToMove w2))"
  using assms by (subst homing_loop.simps) auto

lemma homing_loop_equal_azimuth:
  assumes "clock w - t0 < homing_timeout a"
    and "get_azel py rot w = (Some (home_azimuth a, el), w1)"
    and "\<not> \<bar>home_elevation a - el\<bar> < threshold a"
  shows "homing_loop py a rot t0 new_az w =
     (case new_az of
        None \<Rightarrow> (Inl NameError, w1)
      | Some n \<Rightarrow>
          (case set_azel py rot (pymod n 360) (home_elevation a) True w1 of
             (Inl e, w2) \<Rightarrow> (Inr (), emit (ErrorExn e) w2)
           | (Inr success, w2) \<Rightarrow>
               if success
               then homing_loop py a rot t0 (Some (pymod n 360)) (emit MovementSuccessful w2)
               else (Inr (), emit FailedToMove w2)))"
  using assms by (subst homing_loop.simps) (simp add: step_azimuth_def)

lemma main_normal_exit_closes:
  "fst (main py a w) = Inr u \<Longrightarrow> sock_closed (snd (main py a w))"
  by (auto simp: main_def Let_def emit_def close_def split: prod.splits sum.splits)

text \<open>
  Scenario A of the specification: target (90, 45), threshold 10, step 90, rotator at
  (0, 0). The first step commands (90.0, 45.0), the readback confirms it, and the next
  query finds the rotator arrived.
\<close>

lemma scenario_A_run:
  "main py_sample (default_args\<lparr>home_azimuth := 90, home_elevation := 45\<rparr>)
     (fresh_world
        [(1, Some (position_reply ''0.0'' ''0.0'')), (1, Some (''RPRT 0'' @ [newline])),
         (1, Some (position_reply ''90.0'' ''45.0'')),
         (1, Some (position_reply ''90.0'' ''45.0'')), (1, Some (''RPRT 0'' @ [newline]))]) =
     (Inr (),
      \<lparr>clock = 8, script = [],
       sent = [''p'' @ [newline], ''P 90.0 45.0'' @ [newline], ''p'' @ [newline],
               ''p'' @ [newline], ''P 90.0 45.0'' @ [newline]],
       logged = [AttemptingMove 90 45, TargetPosition 90 45, CurrentPosition 90 45,
                 MovementSuccessful, FinishedMoving, ElapsedTime 8],
       sock_closed = True\<rparr>)"
  by (simp add: main_def default_args_def fresh_world_def py_sample_def position_reply_def
      homing_loop.simps wait_loop.simps get_azel_def send_command_def azel_try_def emit_def
      newline_def step_azimuth_def main_rot_def close_def set_azel_def sleep_def pymod_def)

section \<open>Properties stated by the specification\<close>



text \<open>
  C2. A blocking \<open>set_azel\<close> whose command is accepted (the reply contains \<open>RPRT 0\<close>) ends in
  one of three ways, decided by the replies \<open>sc\<close> to its position queries. Poll \<open>i\<close> is the
  query of the \<open>i\<close>-th iteration of the loop; the iteration starts before the timeout when
  \<open>loop_time rot sc i\<close>, the time since \<open>_start_time\<close>, is below \<open>movement_timeout\<close>.
  \<^item> It returns \<open>True\<close> exactly when some poll that starts before the timeout reports both
    axes within the threshold of the commanded target (the reported azimuth taken modulo
    360), every earlier poll having started in time and reported a position elsewhere.
  \<^item> It raises "Movement Timeout!" exactly when some iteration starts at or after the
    timeout, every earlier poll having reported a position elsewhere.
  \<^item> It raises "No communication with rotator." exactly when some poll that starts
    before the timeout gets no parseable position; that query is the last thing sent.
\<close>

theorem set_azel_blocking_outcome:
  assumes "script w = (d, Some resp) # sc"
    and "is_in ''RPRT 0'' resp"
    and "0 \<le> poll_rate rot"
    and "az = (if azimuth > 360 then pymod azimuth 360 else azimuth)"
    and "el = (if elevation > 90 then 90 else if elevation < 0 then 0 else elevation)"
  shows "(fst (set_azel py rot azimuth elevation True w) = Inr True \<longleftrightarrow>
           (\<exists>k<length sc.
              (\<forall>i\<le>k. loop_time rot sc i < movement_timeout rot)
              \<and> (\<forall>i<k. poll_result py rot az el (snd (sc ! i)) = Moving)
              \<and> poll_result py rot az el (snd (sc ! k)) = Arrived))
       \<and> (fst (set_azel py rot azimuth elevation True w) = Inl MovementTimeout \<longleftrightarrow>
           (\<exists>k\<le>length sc.
              (\<forall>i<k. loop_time rot sc i < movement_timeout rot
                      \<and> poll_result py rot az el (snd (sc ! i)) = Moving)
              \<and> \<not> loop_time rot sc k < movement_timeout rot))
       \<and> (fst (set_azel py rot azimuth elevation True w) = Inl CommunicationLost \<longleftrightarrow>
           (\<exists>k\<le>length sc.
              (\<forall>i\<le>k. loop_time rot sc i < movement_timeout rot)
              \<and> (\<forall>i<k. poll_result py rot az el (snd (sc ! i)) = Moving)
              \<and> (k < length sc \<longrightarrow> poll_result py rot az el (snd (sc ! k)) = Lost)
              \<and> sent (snd (set_azel py rot azimuth elevation True w)) =
                  sent w @ (''P '' @ fmt1 py az @ '' '' @ fmt1 py el @ [newline])
                           # replicate (Suc k) (''p'' @ [newline])))
       \<and> fst (set_azel py rot azimuth elevation True w)
           \<in> {Inr True, Inl MovementTimeout, Inl CommunicationLost}"
proof -
  let ?cmd = "''P '' @ fmt1 py az @ '' '' @ fmt1 py el @ [newline]"
  let ?w1 = "emit (TargetPosition az el)
               (w\<lparr>sent := sent w @ [?cmd], clock := clock w + d, script := sc\<rparr>)"
  let ?res = "set_azel py rot azimuth elevation True w"
  let ?p = "polls py rot az el 0 sc"
  have s: "?res = wait_loop py rot (clock w + d) az el ?w1"
    using assms(1,2,4,5) by (simp add: set_azel_reply Let_def)
  have c1: "clock ?w1 - (clock w + d) = 0" and s1: "script ?w1 = sc"
    and t1: "sent ?w1 = sent w @ [?cmd]"
    by (simp_all add: emit_def)
  note wp = wait_loop_polls [OF assms(3), of py "clock w + d" az el ?w1, folded s,
      unfolded c1 s1 t1]
  have f: "fst ?res = fst ?p"
    and st: "sent (snd ?res) = sent w @ ?cmd # replicate (snd ?p) (''p'' @ [newline])"
    using wp by simp_all
  have 1: "fst ?res = Inr True \<longleftrightarrow>
           (\<exists>k<length sc.
              (\<forall>i\<le>k. loop_time rot sc i < movement_timeout rot)
              \<and> (\<forall>i<k. poll_result py rot az el (snd (sc ! i)) = Moving)
              \<and> poll_result py rot az el (snd (sc ! k)) = Arrived)"
    unfolding f using polls_arrived [of py rot az el 0 sc] by simp
  have 2: "fst ?res = Inl MovementTimeout \<longleftrightarrow>
           (\<exists>k\<le>length sc.
              (\<forall>i<k. loop_time rot sc i < movement_timeout rot
                      \<and> poll_result py rot az el (snd (sc ! i)) = Moving)
              \<and> \<not> loop_time rot sc k < movement_timeout rot)"
    unfolding f using polls_timeout [of py rot az el 0 sc] by simp
  have "fst ?res = Inl CommunicationLost \<longleftrightarrow> ?p = (Inl CommunicationLost, snd ?p)"
    unfolding f by (cases ?p) simp
  also have "\<dots> \<longleftrightarrow>
           (\<exists>k\<le>length sc.
              (\<forall>i\<le>k. loop_time rot sc i < movement_timeout rot)
              \<and> (\<forall>i<k. poll_result py rot az el (snd (sc ! i)) = Moving)
              \<and> (k < length sc \<longrightarrow> poll_result py rot az el (snd (sc ! k)) = Lost)
              \<and> snd ?p = Suc k)"
    using polls_lost [of py rot az el 0 sc "snd ?p"] by simp
  also have "\<dots> \<longleftrightarrow>
           (\<exists>k\<le>length sc.
              (\<forall>i\<le>k. loop_time rot sc i < movement_timeout rot)
              \<and> (\<forall>i<k. poll_result py rot az el (snd (sc ! i)) = Moving)
              \<and> (k < length sc \<longrightarrow> poll_result py rot az el (snd (sc ! k)) = Lost)
              \<and> sent (snd ?res) = sent w @ ?cmd # replicate (Suc k) (''p'' @ [newline]))"
    (is "?A \<longleftrightarrow> ?B")
  proof
    assume ?A
    then show ?B unfolding st by auto
  next
    assume ?B
    then obtain k where k: "k \<le> length sc"
      "\<forall>i\<le>k. loop_time rot sc i < movement_timeout rot"
      "\<forall>i<k. poll_result py rot az el (snd (sc ! i)) = Moving"
      "k < length sc \<longrightarrow> poll_result py rot az el (snd (sc ! k)) = Lost"
      by blast
    then have "?p = (Inl CommunicationLost, Suc k)"
      using polls_lost [of py rot az el 0 sc "Suc k"] by auto
    with k show ?A by auto
  qed
  finally have 3: "fst ?res = Inl CommunicationLost \<longleftrightarrow> ?B" .
  have 4: "fst ?res \<in> {Inr True, Inl MovementTimeout, Inl CommunicationLost}"
    unfolding f by (rule polls_outcomes)
  from 1 2 3 4 show ?thesis by blast
qed

theorem set_azel_blocking_outcome_witness:
  "is_in ''RPRT 0'' (''RPRT 0'' @ [newline])
   \<and> 0 \<le> poll_rate (main_rot default_args)
   \<and> fst (set_azel py_sample (main_rot default_args) 90 0 True
        (fresh_world [(1, Some (''RPRT 0'' @ [newline])),
                      (1, Some (position_reply ''50.0'' ''0.0'')),
                      (1, Some (position_reply ''90.0'' ''0.0''))])) = Inr True
   \<and> (\<exists>k<length [(1::real, Some (position_reply ''50.0'' ''0.0'')),
                   (1, Some (position_reply ''90.0'' ''0.0''))].
        (\<forall>i\<le>k. loop_time (main_rot default_args)
                   [(1, Some (position_reply ''50.0'' ''0.0'')),
                    (1, Some (position_reply ''90.0'' ''0.0''))] i
                 < movement_timeout (main_rot default_args))
        \<and> (\<forall>i<k. poll_result py_sample (main_rot default_args) 90 0
                     (snd ([(1::real, Some (position_reply ''50.0'' ''0.0'')),
                            (1, Some (position_reply ''90.0'' ''0.0''))] ! i)) = Moving)
        \<and> poll_result py_sample (main_rot default_args) 90 0
             (snd ([(1::real, Some (position_reply ''50.0'' ''0.0'')),
                    (1, Some (position_reply ''90.0'' ''0.0''))] ! k)) = Arrived)"
proof -
  let ?sc = "[(1::real, Some (position_reply ''50.0'' ''0.0'')),
              (1, Some (position_reply ''90.0'' ''0.0''))]"
  let ?w = "fresh_world ((1, Some (''RPRT 0'' @ [newline])) # ?sc)"
  have 1: "script ?w = (1, Some (''RPRT 0'' @ [newline])) # ?sc"
    by (simp add: fresh_world_def)
  have 2: "is_in ''RPRT 0'' (''RPRT 0'' @ [newline])"
    by (simp add: newline_def)
  have 3: "0 \<le> poll_rate (main_rot default_args)"
    by (simp add: main_rot_def)
  have 4: "(90::real) = (if (90::real) > 360 then pymod 90 360 else 90)"
    and 5: "(0::real) = (if (0::real) > 90 then 90 else if (0::real) < 0 then 0 else 0)"
    by simp_all
  have r: "fst (set_azel py_sample (main_rot default_args) 90 0 True ?w) = Inr True"
    by (simp add: set_azel_reply fresh_world_def py_sample_def position_reply_def
        wait_loop.simps sleep_def get_azel_def send_command_def azel_try_def emit_def
        newline_def main_rot_def default_args_def pymod_def)
  from set_azel_blocking_outcome [OF 1 2 3 4 5, of py_sample, THEN conjunct1] r
  have "\<exists>k<length ?sc.
        (\<forall>i\<le>k. loop_time (main_rot default_args) ?sc i
                 < movement_timeout (main_rot default_args))
        \<and> (\<forall>i<k. poll_result py_sample (main_rot default_args) 90 0 (snd (?sc ! i)) = Moving)
        \<and> poll_result py_sample (main_rot default_args) 90 0 (snd (?sc ! k)) = Arrived"
    by blast
  with 2 3 r show ?thesis by blast
qed

text \<open>
  C3. When the loop is entered and the first position query already reports a position
  within the threshold of the target on both axes (raw difference, no modulo), the session
  sends exactly the query and one position command for the target, the command being the
  non-blocking \<open>set_azel\<close> of the arrival branch; it logs the attempt and
  "Finished moving to target position." and nothing of the stepping branch. When the device
  answers the final command, whatever the answer, the session ends normally with the
  socket closed.
\<close>

theorem main_arrival_at_first_query:
  assumes "0 < homing_timeout a"
    and "script w = (d, Some r) # sc"
    and "azel_try py (Some r) = Inr (az, el)"
    and "\<bar>home_azimuth a - az\<bar> < threshold a"
    and "\<bar>home_elevation a - el\<bar> < threshold a"
  shows "sent (snd (main py a w)) =
           sent w @
           [''p'' @ [newline],
            ''P '' @ fmt1 py (if home_azimuth a > 360 then pymod (home_azimuth a) 360
                              else home_azimuth a) @ '' '' @
            fmt1 py (if home_elevation a > 90 then 90
                     else if home_elevation a < 0 then 0 else home_elevation a) @ [newline]]
       \<and> (\<exists>tl. logged (snd (main py a w)) =
                  logged w @ AttemptingMove (home_azimuth a) (home_elevation a)
                             # FinishedMoving # tl
                \<and> (tl = [] \<or> (\<exists>t. tl = [ElapsedTime t])))
       \<and> main py a w =
           (case set_azel py (main_rot a) (home_azimuth a) (home_elevation a) False
                   (w\<lparr>sent := sent w @ [''p'' @ [newline]], clock := clock w + d, script := sc,
                       logged := logged w @ [AttemptingMove (home_azimuth a) (home_elevation a),
                                             FinishedMoving]\<rparr>) of
              (Inl e, w2) \<Rightarrow> (Inl e, w2)
            | (Inr b, w2) \<Rightarrow> (Inr (), emit (ElapsedTime (clock w2 - clock w)) (close w2)))
       \<and> (\<forall>d' resp sc'. sc = (d', Some resp) # sc' \<longrightarrow>
            fst (main py a w) = Inr () \<and> sock_closed (snd (main py a w))
            \<and> script (snd (main py a w)) = sc')"
proof -
  let ?w0 = "emit (AttemptingMove (home_azimuth a) (home_elevation a)) w"
  let ?w1 = "?w0\<lparr>sent := sent ?w0 @ [''p'' @ [newline]], clock := clock ?w0 + d, script := sc\<rparr>"
  let ?wf = "w\<lparr>sent := sent w @ [''p'' @ [newline]], clock := clock w + d, script := sc,
                logged := logged w @ [AttemptingMove (home_azimuth a) (home_elevation a),
                                      FinishedMoving]\<rparr>"
  have s0: "script ?w0 = (d, Some r) # sc"
    using assms(2) by (simp add: emit_def)
  have g: "get_azel py (main_rot a) ?w0 = (Some (az, el), ?w1)"
    using get_azel_reply [OF s0, of py "main_rot a"] assms(3) by simp
  have c: "clock ?w0 - clock w < homing_timeout a"
    using assms(1) by (simp add: emit_def)
  have wf: "emit FinishedMoving ?w1 = ?wf"
    by (simp add: emit_def)
  have h: "homing_loop py a (main_rot a) (clock w) None ?w0 =
     (case set_azel py (main_rot a) (home_azimuth a) (home_elevation a) False ?wf of
        (Inl e, w2) \<Rightarrow> (Inl e, w2)
      | (Inr b, w2) \<Rightarrow> (Inr (), w2))"
    using homing_loop_arrival [OF c g assms(4) assms(5), of None] unfolding wf .
  have m: "main py a w =
           (case set_azel py (main_rot a) (home_azimuth a) (home_elevation a) False ?wf of
              (Inl e, w2) \<Rightarrow> (Inl e, w2)
            | (Inr b, w2) \<Rightarrow> (Inr (), emit (ElapsedTime (clock w2 - clock w)) (close w2)))"
    unfolding main_def Let_def h by (simp split: prod.splits sum.splits)
  have sf: "script ?wf = sc" by simp
  have 1: "sent (snd (main py a w)) =
           sent w @
           [''p'' @ [newline],
            ''P '' @ fmt1 py (if home_azimuth a > 360 then pymod (home_azimuth a) 360
                              else home_azimuth a) @ '' '' @
            fmt1 py (if home_elevation a > 90 then 90
                     else if home_elevation a < 0 then 0 else home_elevation a) @ [newline]]"
  proof (cases sc)
    case Nil
    with sf show ?thesis
      unfolding m by (simp add: set_azel_silent)
  next
    case (Cons x sc')
    obtain d' r' where "x = (d', r')" by (cases x)
    with Cons sf have "script ?wf = (d', r') # sc'" by simp
    from set_azel_reply [OF this] show ?thesis
      unfolding m by (simp add: Let_def emit_def close_def split: option.splits)
  qed
  have 2: "\<exists>tl. logged (snd (main py a w)) =
                  logged w @ AttemptingMove (home_azimuth a) (home_elevation a)
                             # FinishedMoving # tl
                \<and> (tl = [] \<or> (\<exists>t. tl = [ElapsedTime t]))"
  proof (cases sc)
    case Nil
    with sf show ?thesis
      unfolding m by (simp add: set_azel_silent)
  next
    case (Cons x sc')
    obtain d' r' where "x = (d', r')" by (cases x)
    with Cons sf have "script ?wf = (d', r') # sc'" by simp
    from set_azel_reply [OF this] show ?thesis
      unfolding m by (simp add: Let_def emit_def close_def split: option.splits)
  qed
  have 3: "fst (main py a w) = Inr () \<and> sock_closed (snd (main py a w))
           \<and> script (snd (main py a w)) = sc'"
    if "sc = (d', Some resp) # sc'" for d' resp sc'
  proof -
    from that sf have "script ?wf = (d', Some resp) # sc'" by simp
    from set_azel_reply [OF this] show ?thesis
      unfolding m by (simp add: Let_def emit_def close_def)
  qed
  from 1 2 m 3 show ?thesis by blast
qed

theorem main_arrival_at_first_query_witness:
  "0 < homing_timeout default_args
   \<and> azel_try py_sample (Some (position_reply ''0.0'' ''0.0'')) = Inr (0, 0)
   \<and> \<bar>home_azimuth default_args - 0\<bar> < threshold default_args
   \<and> \<bar>home_elevation default_args - 0\<bar> < threshold default_args
   \<and> sent (snd (main py_sample default_args
        (fresh_world [(1, Some (position_reply ''0.0'' ''0.0'')),
                      (1, Some (''RPRT 0'' @ [newline]))])))
      = [''p'' @ [newline], ''P 0.0 0.0'' @ [newline]]
   \<and> fst (main py_sample default_args
        (fresh_world [(1, Some (position_reply ''0.0'' ''0.0'')),
                      (1, Some (''RPRT 0'' @ [newline]))])) = Inr ()
   \<and> sock_closed (snd (main py_sample default_args
        (fresh_world [(1, Some (position_reply ''0.0'' ''0.0'')),
                      (1, Some (''RPRT 0'' @ [newline]))])))"
proof -
  let ?w = "fresh_world [(1, Some (position_reply ''0.0'' ''0.0'')),
                         (1, Some (''RPRT 0'' @ [newline]))]"
  have 1: "0 < homing_timeout default_args"
    by (simp add: default_args_def)
  have 2: "script ?w = (1, Some (position_reply ''0.0'' ''0.0'')) # [(1, Some (''RPRT 0'' @ [newline]))]"
    by (simp add: fresh_world_def)
  have 3: "azel_try py_sample (Some (position_reply ''0.0'' ''0.0'')) = Inr (0, 0)"
    by (simp add: azel_try_def py_sample_def position_reply_def newline_def)
  have 4: "\<bar>home_azimuth default_args - 0\<bar> < threshold default_args"
    and 5: "\<bar>home_elevation default_args - 0\<bar> < threshold default_args"
    by (simp_all add: default_args_def)
  note arrival = main_arrival_at_first_query [OF 1 2 3 4 5]
  from arrival [THEN conjunct1]
  have s: "sent (snd (main py_sample default_args ?w)) = [''p'' @ [newline], ''P 0.0 0.0'' @ [newline]]"
    by (simp add: default_args_def py_sample_def fresh_world_def)
  from arrival [THEN conjunct2, THEN conjunct2, THEN conjunct2, rule_format,
      of 1 "''RPRT 0'' @ [newline]" "[]"]
  have "fst (main py_sample default_args ?w) = Inr ()"
    and "sock_closed (snd (main py_sample default_args ?w))"
    by simp_all
  with 1 3 4 5 s show ?thesis by blast
qed

text \<open>
  C4. With the rotator at the target azimuth and the elevation still off, the first
  iteration of the loop does not compute a step: neither branch binds \<open>_new_az\<close>, and the
  modulo that follows raises NameError before any command is sent. (In a later iteration
  the variable still holds the azimuth commanded before, see \<open>homing_loop_equal_azimuth\<close>.)
\<close>

theorem main_equal_azimuth_raises:
  "main py_sample default_args (fresh_world [(1, Some (position_reply ''0.0'' ''50.0''))]) =
     (Inl NameError,
      \<lparr>clock = 1, script = [], sent = [''p'' @ [newline]], logged = [AttemptingMove 0 0],
       sock_closed = False\<rparr>)"
  by (simp add: main_def default_args_def fresh_world_def py_sample_def position_reply_def
      homing_loop.simps get_azel_def send_command_def azel_try_def emit_def newline_def
      step_azimuth_def main_rot_def)

text \<open>
  C5. The claim says that commanding an azimuth \<open>a \<ge> 360\<close> is the same as commanding
  \<open>a mod 360\<close>. The guard of \<open>set_azel\<close> is the strict \<open>azimuth > 360.0\<close>: at exactly 360
  the azimuth goes out as 360.0, whereas \<open>360 mod 360 = 0\<close> goes out as 0.0.
\<close>

theorem set_azel_360_counterexample:
  "(360::real) \<ge> 360
   \<and> sent (snd (set_azel py_sample (main_rot default_args) 360 0 False
        (fresh_world [(1, Some (''RPRT 0'' @ [newline]))])))
      = [''P 360.0 0.0'' @ [newline]]
   \<and> sent (snd (set_azel py_sample (main_rot default_args) (pymod 360 360) 0 False
        (fresh_world [(1, Some (''RPRT 0'' @ [newline]))])))
      = [''P 0.0 0.0'' @ [newline]]
   \<and> set_azel py_sample (main_rot default_args) 360 0 False
        (fresh_world [(1, Some (''RPRT 0'' @ [newline]))])
      \<noteq> set_azel py_sample (main_rot default_args) (pymod 360 360) 0 False
        (fresh_world [(1, Some (''RPRT 0'' @ [newline]))])"
  by (simp add: set_azel_reply fresh_world_def py_sample_def newline_def pymod_def)

text \<open>
  C5, amended. For every azimuth strictly above 360 and every elevation, commanding
  \<open>(a, e)\<close> is the same as commanding \<open>(a mod 360, e)\<close>: the result, the bytes written to the
  socket and the whole final state agree, in blocking and in non-blocking mode.
\<close>

theorem set_azel_mod_360:
  assumes "a > 360"
  shows "set_azel py rot a e blocking w = set_azel py rot (pymod a 360) e blocking w"
proof -
  have "\<not> pymod a 360 > 360"
    using pymod_360_range [of a] by simp
  with assms show ?thesis
    by (simp add: set_azel_def)
qed

theorem set_azel_mod_360_witness:
  "(400::real) > 360 \<and> pymod 400 360 = 40
   \<and> sent (snd (set_azel py_sample (main_rot default_args) 400 0 False
        (fresh_world [(1, Some (''RPRT 0'' @ [newline]))])))
      = [''P 40.0 0.0'' @ [newline]]"
proof -
  have "sent (snd (set_azel py_sample (main_rot default_args) (pymod 400 360) 0 False
        (fresh_world [(1, Some (''RPRT 0'' @ [newline]))])))
      = [''P 40.0 0.0'' @ [newline]]"
    by (simp add: set_azel_reply fresh_world_def py_sample_def newline_def pymod_def)
  with set_azel_mod_360 [of 400 py_sample "main_rot default_args" 0 False
      "fresh_world [(1, Some (''RPRT 0'' @ [newline]))]"]
  show ?thesis by (simp add: pymod_def)
qed

text \<open>
  C6. For an azimuth in \<open>[0, 360)\<close> the command written to the socket is \<open>P\<close>, the azimuth
  itself formatted to one decimal place, and the elevation clamped to \<open>[0, 90]\<close> formatted
  to one decimal place; only position queries follow it, and none in non-blocking mode.
\<close>

theorem set_azel_command_in_range:
  assumes "0 \<le> a" and "a < 360"
  shows "\<exists>n. sent (snd (set_azel py rot a e blocking w)) =
           sent w @ (''P '' @ fmt1 py a @ '' '' @ fmt1 py (max 0 (min 90 e)) @ [newline])
                    # replicate n (''p'' @ [newline])"
proof -
  have "(if e > 90 then 90 else if e < 0 then 0 else e) = max 0 (min 90 e)"
    by (simp add: max_def min_def)
  with set_azel_sent [of py rot a e blocking w] assms show ?thesis
    by auto
qed

theorem set_azel_command_in_range_witness:
  "(0::real) \<le> 90 \<and> (90::real) < 360
   \<and> sent (snd (set_azel py_sample (main_rot default_args) 90 100 False
        (fresh_world [(1, Some (''RPRT 0'' @ [newline]))])))
      = [''P 90.0 90.0'' @ [newline]]"
proof -
  have "sent (snd (set_azel py_sample (main_rot default_args) 90 100 False
        (fresh_world [(1, Some (''RPRT 0'' @ [newline]))])))
      = [''P 90.0 90.0'' @ [newline]]"
    by (simp add: set_azel_reply fresh_world_def py_sample_def newline_def)
  with set_azel_command_in_range [of 90 py_sample "main_rot default_args" 100 False
      "fresh_world [(1, Some (''RPRT 0'' @ [newline]))]"]
  show ?thesis by simp
qed

text \<open>
  C7. A response without the marker makes \<open>set_azel\<close> return \<open>False\<close> at once, but an absent
  response does not: \<open>send_command\<close> hands back \<open>None\<close> when \<open>recv\<close> times out, and the test
  \<open>"RPRT 0" not in response\<close> then raises TypeError instead of returning \<open>False\<close>.
\<close>

theorem set_azel_absent_response_raises:
  "set_azel py_sample (main_rot default_args) 10 20 True (fresh_world [(5, None)]) =
     (Inl TypeError,
      \<lparr>clock = 5, script = [], sent = [''P 10.0 20.0'' @ [newline]], logged = [],
       sock_closed = False\<rparr>)"
  by (simp add: set_azel_reply fresh_world_def py_sample_def)

text \<open>
  C8. \<open>get_azel\<close> returns for every outcome of the exchange, including no response at all:
  the position when the first two lines of the response both parse as floats (in
  particular for a response of exactly two numeric lines), and the unavailable position
  when the response is missing, has fewer than two lines, or one of the two fields is not
  numeric. Each exception of the \<open>try\<close> body ends in the unavailable position.
\<close>

theorem get_azel_never_raises:
  assumes "response = (case script w of [] \<Rightarrow> None | (d, r) # sc \<Rightarrow> r)"
  shows "fst (get_azel py rot w) =
           (case response of
              None \<Rightarrow> None
            | Some r \<Rightarrow>
                (case split_on newline r of
                   a # b # others \<Rightarrow>
                     (case float_of py a of
                        None \<Rightarrow> None
                      | Some az \<Rightarrow>
                          (case float_of py b of None \<Rightarrow> None | Some el \<Rightarrow> Some (az, el)))
                 | _ \<Rightarrow> None))
       \<and> (\<forall>a b az el. response = Some (a @ newline # b) \<and> newline \<notin> set a \<and> newline \<notin> set b
              \<and> float_of py a = Some az \<and> float_of py b = Some el
            \<longrightarrow> fst (get_azel py rot w) = Some (az, el))
       \<and> (fst (get_azel py rot w) = None \<longleftrightarrow> (\<exists>e. azel_try py response = Inl e))"
proof -
  have r: "fst (send_command rot ''p'' w) = response"
    using assms by (simp add: send_command_def split: list.splits)
  have g: "fst (get_azel py rot w) = (case azel_try py response of Inl e \<Rightarrow> None | Inr p \<Rightarrow> Some p)"
    using r by (cases "send_command rot ''p'' w") (simp add: get_azel_def split: sum.splits)
  have 1: "fst (get_azel py rot w) =
           (case response of
              None \<Rightarrow> None
            | Some r \<Rightarrow>
                (case split_on newline r of
                   a # b # others \<Rightarrow>
                     (case float_of py a of
                        None \<Rightarrow> None
                      | Some az \<Rightarrow>
                          (case float_of py b of None \<Rightarrow> None | Some el \<Rightarrow> Some (az, el)))
                 | _ \<Rightarrow> None))"
    unfolding g by (simp add: azel_try_def split: option.splits list.splits)
  have 2: "fst (get_azel py rot w) = Some (az, el)"
    if "response = Some (a @ newline # b)" "newline \<notin> set a" "newline \<notin> set b"
      "float_of py a = Some az" "float_of py b = Some el" for a b az el
    unfolding 1 using that by (simp add: split_on_two_lines)
  have 3: "fst (get_azel py rot w) = None \<longleftrightarrow> (\<exists>e. azel_try py response = Inl e)"
    unfolding g by (simp split: sum.splits)
  from 1 2 3 show ?thesis by blast
qed

theorem get_azel_never_raises_witness:
  "newline \<notin> set ''0.0'' \<and> newline \<notin> set ''50.0''
   \<and> float_of py_sample ''0.0'' = Some 0 \<and> float_of py_sample ''50.0'' = Some 50
   \<and> fst (get_azel py_sample (main_rot default_args)
          (fresh_world [(1, Some (''0.0'' @ newline # ''50.0''))])) = Some (0, 50)"
proof -
  let ?w = "fresh_world [(1, Some (''0.0'' @ newline # ''50.0''))]"
  have r: "Some (''0.0'' @ newline # ''50.0'') = (case script ?w of [] \<Rightarrow> None | (d, r) # sc \<Rightarrow> r)"
    by (simp add: fresh_world_def)
  have n: "newline \<notin> set ''0.0''" "newline \<notin> set ''50.0''"
    by (simp_all add: newline_def)
  have f: "float_of py_sample ''0.0'' = Some 0" "float_of py_sample ''50.0'' = Some 50"
    by (simp_all add: py_sample_def)
  from get_azel_never_raises [OF r, of py_sample "main_rot default_args",
      THEN conjunct2, THEN conjunct1, rule_format, of "''0.0''" "''50.0''" 0 50] n f
  have "fst (get_azel py_sample (main_rot default_args) ?w) = Some (0, 50)"
    by blast
  with n f show ?thesis by blast
qed

text \<open>
  C9. The session below finds the rotator at the target and sends the final command, to
  which the device does not answer: \<open>set_azel\<close> raises TypeError outside any \<open>try\<close>, the
  exception leaves the loop, and \<open>close\<close> is never called.
\<close>

theorem main_exits_without_close:
  "main py_sample default_args
     (fresh_world [(1, Some (position_reply ''0.0'' ''0.0'')), (5, None)]) =
     (Inl TypeError,
      \<lparr>clock = 6, script = [], sent = [''p'' @ [newline], ''P 0.0 0.0'' @ [newline]],
       logged = [AttemptingMove 0 0, FinishedMoving], sock_closed = False\<rparr>)"
  by (simp add: main_def default_args_def fresh_world_def py_sample_def position_reply_def
      homing_loop.simps get_azel_def send_command_def azel_try_def emit_def newline_def
      set_azel_def main_rot_def)

text \<open>
  C10. A negative azimuth is written to the socket as it is (formatted to one decimal
  place): only an azimuth above 360 is reduced.
\<close>

theorem set_azel_command_negative:
  assumes "a < 0"
  shows "\<exists>n. sent (snd (set_azel py rot a e blocking w)) =
           sent w @ (''P '' @ fmt1 py a @ '' '' @ fmt1 py (max 0 (min 90 e)) @ [newline])
                    # replicate n (''p'' @ [newline])"
proof -
  have "(if e > 90 then 90 else if e < 0 then 0 else e) = max 0 (min 90 e)"
    by (simp add: max_def min_def)
  with set_azel_sent [of py rot a e blocking w] assms show ?thesis
    by auto
qed

theorem set_azel_command_negative_witness:
  "(- 10 :: real) < 0
   \<and> sent (snd (set_azel py_sample (main_rot default_args) (- 10) 20 False
        (fresh_world [(1, Some (''RPRT 0'' @ [newline]))])))
      = [''P -10.0 20.0'' @ [newline]]"
proof -
  have "sent (snd (set_azel py_sample (main_rot default_args) (- 10) 20 False
        (fresh_world [(1, Some (''RPRT 0'' @ [newline]))])))
      = [''P -10.0 20.0'' @ [newline]]"
    by (simp add: set_azel_reply fresh_world_def py_sample_def newline_def)
  with set_azel_command_negative [of "- 10" py_sample "main_rot default_args" 20 False
      "fresh_world [(1, Some (''RPRT 0'' @ [newline]))]"]
  show ?thesis by simp
qed

end
